theory Spec2Isabelle
  imports Main
begin

section \<open>The state reducer of src/utils/reducer.js\<close>

text \<open>
  The reducer is JavaScript: a state is an object whose fields are primitives
  (strings, null) or references to other objects (the json table, the blacklist
  array, the Set of expanded records, the derived module data). Two facts of the
  source need the references to be explicit: \<open>calculateFullModuleData\<close> compares
  \<open>json\<close> and \<open>blacklistedModuleIds\<close> with \<open>===\<close>, that is by reference, and
  \<open>Set.prototype.add\<close> changes a Set in place. So the model keeps a store of
  objects, and the state's reference fields hold addresses.

  Objects that the reducer only ever rebuilds and never compares by reference
  (\<open>dataPaths\<close>, \<open>sort\<close>, \<open>filters\<close>) are kept as values in the state record.
  A JavaScript object used as a dictionary is a map of its own properties.
  Reading \<open>obj[key]\<close> also finds what a plain object inherits from
  \<open>Object.prototype\<close> (\<open>getProperty\<close> below); spreading \<open>{...obj}\<close> and a computed
  key \<open>{[key]: v}\<close> copy and create own properties only.
\<close>

subsection \<open>Identifiers\<close>

text \<open>
  The declarations of \<open>ModuleID\<close> and \<open>ChunkID\<close> (types/Stats) are not among the
  sources. The reducer applies \<open>String(...)\<close> to both, so an identifier is a
  number or a string. The reducer never computes with a number: it prints it,
  puts it into a Set and into an array. \<open>String\<close> gives different numbers
  different texts (\<open>0\<close> and \<open>-0\<close>, which are the same member of a Set, both
  print as \<open>0\<close>), so a number is represented by the text \<open>String\<close> gives for
  it: \<open>Num ''5''\<close> is the number 5, \<open>Num ''1e+21''\<close> the number \<open>10^21\<close>,
  \<open>Num ''1.5''\<close> the number 1.5. Equality of this datatype is then the
  membership test of a JavaScript Set; a number never equals a string.
\<close>

datatype ID = Num string | Str string

text \<open>\<open>String(id)\<close>: the text of a number, a string as it is.\<close>

definition String_of :: "ID \<Rightarrow> string" where
  "String_of i = (case i of Num t \<Rightarrow> t | Str s \<Rightarrow> s)"

subsection \<open>Actions and state\<close>

text \<open>
  The names of the properties of \<open>Object.prototype\<close>. Each of them is a function
  (\<open>__proto__\<close> reads as the prototype object itself), so what a plain object
  inherits under one of these names is truthy and is no status and no document.
\<close>

definition Object_prototype_names :: "string list" where
  "Object_prototype_names =
     [''constructor'', ''hasOwnProperty'', ''isPrototypeOf'', ''propertyIsEnumerable'',
      ''toLocaleString'', ''toString'', ''valueOf'', ''__proto__'',
      ''__defineGetter__'', ''__defineSetter__'', ''__lookupGetter__'', ''__lookupSetter__'']"

text \<open>
  \<open>obj[key]\<close> on a plain object with the own properties \<open>own\<close>: the own property,
  else the member of \<open>Object.prototype\<close> of that name (\<open>inherited key\<close>), else
  \<open>undefined\<close> (\<open>None\<close>).
\<close>

definition getProperty :: "(string \<rightharpoonup> 'v) \<Rightarrow> (string \<Rightarrow> 'v) \<Rightarrow> string \<Rightarrow> 'v option" where
  "getProperty own inherited key =
     (case own key of
        Some v \<Rightarrow> Some v
      | None \<Rightarrow> if key \<in> set Object_prototype_names then Some (inherited key) else None)"

text \<open>
  What an entry of \<open>dataPaths\<close> can hold: one of the four status strings, or,
  through \<open>dataPaths[path] || 'unknown'\<close> on a path that names a property of
  \<open>Object.prototype\<close>, the inherited member.
\<close>

datatype DataPathState = Unknown | Loading | Error | Ready | InheritedStatus string

text \<open>
  What the json table can give for a path: a stats document (an object), a
  falsy value (\<open>null\<close>, \<open>0\<close>, \<open>false\<close> or the empty string, which a loader can
  pass where the declared type asks for a document), or an inherited member of
  \<open>Object.prototype\<close>.
\<close>

datatype 'stats Value = Stats 'stats | Falsy | Inherited string

datatype ExpandMode = Manual | ExpandAll | CollapseAll

datatype Direction = ASC | DESC

record SortProps =
  sort_field :: string
  sort_direction :: Direction

text \<open>
  The last constructor stands for an action whose \<open>type\<close> is none of the
  fourteen of the catalog (the \<open>default\<close> branch of the switch).
\<close>

datatype 'stats Action =
    discoveredDataPaths "string list"
  | pickDataPath string
  | requestedDataAtPath string
  | loadedStatsAtPath string "'stats Value"
  | erroredAtPath string string
  | onSorted string
  | onFiltered "string \<rightharpoonup> string"
  | onPickedChunk ID
  | onRemoveModule ID
  | onIncludeModule ID
  | changeExpandRecordsMode ExpandMode
  | onExpandRecords ID
  | onCollapseRecords ID
  | onFocusChanged "string option"
  | otherAction string

type_synonym addr = nat

record State =
  dataPaths :: "string \<rightharpoonup> DataPathState"
  selectedFilename :: "string option"
  selectedChunkId :: "ID option"
  blacklistedModuleIds :: addr
  json :: addr
  sort_props :: SortProps
  filters :: "string \<rightharpoonup> string"
  expandMode :: ExpandMode
  expandedRecords :: addr
  currentlyFocusedElementID :: "string option"
  calculatedFullModuleData :: "addr option"

text \<open>
  The store: one table of objects per kind, a counter \<open>fresh\<close> that gives the
  address of the next object created, and \<open>fmd_calls\<close>, which counts the calls
  of \<open>fullModuleData\<close> (it is not part of the program's data; it makes
  "the derivation is invoked" a statement about the model).
\<close>

record ('stats, 'fmd) Heap =
  array_objs :: "addr \<rightharpoonup> ID list"
  table_objs :: "addr \<rightharpoonup> (string \<rightharpoonup> 'stats Value)"
  set_objs :: "addr \<rightharpoonup> ID set"
  fmd_objs :: "addr \<rightharpoonup> 'fmd"
  fresh :: addr
  fmd_calls :: nat

text \<open>
  The functions the reducer imports from ../stats are not among the sources and
  are parameters of the model. \<open>fullModuleData\<close> is the derivation called by
  \<open>calculateFullModuleData\<close>, on whatever truthy value the json table gave;
  its result is an object or null (\<open>None\<close>). \<open>collapsableParentOf d e\<close> stands for the
  \<open>onFocusChanged\<close> lookup on derived data \<open>d\<close>: the \<open>id\<close> of
  \<open>getCollapsableParentOf(getModulesById(d.extendedModules), e)\<close>, and \<open>None\<close>
  when \<open>d.extendedModules\<close> is missing or no parent is found (the source builds
  the same state in both cases). They are taken to be pure.
\<close>

record ('stats, 'fmd) Externals =
  fullModuleData :: "'stats Value \<Rightarrow> ID option \<Rightarrow> ID list \<Rightarrow> 'fmd option"
  collapsableParentOf :: "'fmd \<Rightarrow> string \<Rightarrow> ID option"

text \<open>Reading the store. A reference of a JavaScript state is never dangling;
  the defaults below are only there to make the readers total.\<close>

definition arrayAt :: "('stats, 'fmd) Heap \<Rightarrow> addr \<Rightarrow> ID list" where
  "arrayAt h a = (case array_objs h a of Some xs \<Rightarrow> xs | None \<Rightarrow> [])"

definition tableAt :: "('stats, 'fmd) Heap \<Rightarrow> addr \<Rightarrow> (string \<rightharpoonup> 'stats Value)" where
  "tableAt h a = (case table_objs h a of Some t \<Rightarrow> t | None \<Rightarrow> Map.empty)"

definition setAt :: "('stats, 'fmd) Heap \<Rightarrow> addr \<Rightarrow> ID set" where
  "setAt h a = (case set_objs h a of Some S \<Rightarrow> S | None \<Rightarrow> {})"

text \<open>Creating objects: \<open>[...]\<close>, \<open>{...}\<close>, \<open>new Set(...)\<close> and the result of
  \<open>fullModuleData\<close>.\<close>

definition new_array :: "('stats, 'fmd) Heap \<Rightarrow> ID list \<Rightarrow> addr \<times> ('stats, 'fmd) Heap" where
  "new_array h xs = (fresh h, h\<lparr>array_objs := (array_objs h)(fresh h \<mapsto> xs), fresh := Suc (fresh h)\<rparr>)"

definition new_table ::
  "('stats, 'fmd) Heap \<Rightarrow> (string \<rightharpoonup> 'stats Value) \<Rightarrow> addr \<times> ('stats, 'fmd) Heap" where
  "new_table h t = (fresh h, h\<lparr>table_objs := (table_objs h)(fresh h \<mapsto> t), fresh := Suc (fresh h)\<rparr>)"

definition new_Set :: "('stats, 'fmd) Heap \<Rightarrow> ID set \<Rightarrow> addr \<times> ('stats, 'fmd) Heap" where
  "new_Set h S = (fresh h, h\<lparr>set_objs := (set_objs h)(fresh h \<mapsto> S), fresh := Suc (fresh h)\<rparr>)"

definition new_fmd :: "('stats, 'fmd) Heap \<Rightarrow> 'fmd \<Rightarrow> addr \<times> ('stats, 'fmd) Heap" where
  "new_fmd h d = (fresh h, h\<lparr>fmd_objs := (fmd_objs h)(fresh h \<mapsto> d), fresh := Suc (fresh h)\<rparr>)"

text \<open>\<open>set.add(x)\<close> and \<open>set.delete(x)\<close> change the Set object at \<open>a\<close> in place.\<close>

definition Set_add :: "('stats, 'fmd) Heap \<Rightarrow> addr \<Rightarrow> ID \<Rightarrow> ('stats, 'fmd) Heap" where
  "Set_add h a x = h\<lparr>set_objs := (set_objs h)(a \<mapsto> insert x (setAt h a))\<rparr>"

definition Set_delete :: "('stats, 'fmd) Heap \<Rightarrow> addr \<Rightarrow> ID \<Rightarrow> ('stats, 'fmd) Heap" where
  "Set_delete h a x = h\<lparr>set_objs := (set_objs h)(a \<mapsto> setAt h a - {x})\<rparr>"

text \<open>\<open>INITIAL_STATE\<close>: its array, table and Set are the objects 0, 1 and 2.\<close>

definition INITIAL_STATE :: State where
  "INITIAL_STATE =
     \<lparr> dataPaths = Map.empty,
       selectedFilename = None,
       selectedChunkId = None,
       blacklistedModuleIds = 0,
       json = 1,
       sort_props = \<lparr> sort_field = ''cumulativeSize'', sort_direction = DESC \<rparr>,
       filters = map_of
         [(''moduleName'', ''''),
          (''cumulativeSizeMin'', ''''), (''cumulativeSizeMax'', ''''),
          (''requiredByCountMin'', ''''), (''requiredByCountMax'', ''''),
          (''requirementsCountMin'', ''''), (''requirementsCountMax'', '''')],
       expandMode = CollapseAll,
       expandedRecords = 2,
       currentlyFocusedElementID = None,
       calculatedFullModuleData = None \<rparr>"

definition INITIAL_HEAP :: "('stats, 'fmd) Heap" where
  "INITIAL_HEAP =
     \<lparr> array_objs = [0 \<mapsto> []],
       table_objs = [1 \<mapsto> Map.empty],
       set_objs = [2 \<mapsto> {}],
       fmd_objs = Map.empty,
       fresh = 3,
       fmd_calls = 0 \<rparr>"

subsection \<open>handleAction\<close>

text \<open>\<open>m[path] || 'unknown'\<close>: a status is a non-empty string and an inherited
  member is an object, so the default is taken exactly when \<open>m[path]\<close> is
  \<open>undefined\<close>.\<close>

definition or_unknown :: "(string \<rightharpoonup> DataPathState) \<Rightarrow> string \<Rightarrow> DataPathState" where
  "or_unknown m path =
     (case getProperty m InheritedStatus path of Some x \<Rightarrow> x | None \<Rightarrow> Unknown)"

text \<open>
  One step of the \<open>reduce\<close> of \<open>discoveredDataPaths\<close>:
  \<open>map[path] = map[path] || 'unknown'\<close>. The assignment creates an own property,
  except for the path \<open>__proto__\<close>, where it calls the setter that
  \<open>Object.prototype\<close> has under that name and leaves the own properties as they
  are.
\<close>

definition discover :: "(string \<rightharpoonup> DataPathState) \<Rightarrow> string \<Rightarrow> (string \<rightharpoonup> DataPathState)" where
  "discover m path = (if path = ''__proto__'' then m else m(path \<mapsto> or_unknown m path))"

text \<open>The guard of \<open>onFocusChanged\<close>: \<open>action.elementID\<close> is truthy (neither
  null nor the empty string), derived data exists, and a collapsable parent is
  found.\<close>

definition focusParent ::
  "('stats, 'fmd) Externals \<Rightarrow> State \<Rightarrow> ('stats, 'fmd) Heap \<Rightarrow> string option \<Rightarrow> ID option" where
  "focusParent P s h elementID =
     (case elementID of
        None \<Rightarrow> None
      | Some e \<Rightarrow>
          if e = [] then None
          else (case calculatedFullModuleData s of
                  None \<Rightarrow> None
                | Some r \<Rightarrow> (case fmd_objs h r of
                               None \<Rightarrow> None
                             | Some d \<Rightarrow> collapsableParentOf P d e)))"

fun handleAction ::
  "('stats, 'fmd) Externals \<Rightarrow> State \<Rightarrow> ('stats, 'fmd) Heap \<Rightarrow> 'stats Action
     \<Rightarrow> State \<times> ('stats, 'fmd) Heap" where
  "handleAction P s h (discoveredDataPaths paths) =
     (s\<lparr>dataPaths := foldl discover Map.empty paths ++ dataPaths s\<rparr>, h)"
| "handleAction P s h (pickDataPath path) =
     (let (b, h1) = new_array h [];
          (e, h2) = new_Set h1 {}
      in (s\<lparr>dataPaths := [path \<mapsto> or_unknown (dataPaths s) path] ++ dataPaths s,
            selectedFilename := Some path,
            selectedChunkId := None,
            blacklistedModuleIds := b,
            expandMode := CollapseAll,
            expandedRecords := e,
            currentlyFocusedElementID := None\<rparr>, h2))"
| "handleAction P s h (requestedDataAtPath path) =
     (s\<lparr>dataPaths := (dataPaths s)
          (path \<mapsto> (if getProperty (dataPaths s) InheritedStatus path = Some Ready
                     then Ready else Loading))\<rparr>, h)"
| "handleAction P s h (loadedStatsAtPath path stats) =
     (let (j, h1) = new_table h ((tableAt h (json s))(path \<mapsto> stats))
      in (s\<lparr>dataPaths := (dataPaths s)(path \<mapsto> Ready), json := j\<rparr>, h1))"
| "handleAction P s h (erroredAtPath path err) =
     (s\<lparr>dataPaths := (dataPaths s)(path \<mapsto> Error)\<rparr>, h)"
| "handleAction P s h (onSorted fld) =
     (let isSameField = (sort_field (sort_props s) = fld);
          invertedDir = (if sort_direction (sort_props s) = ASC then DESC else ASC);
          nextDirection = (if isSameField then invertedDir else DESC)
      in (s\<lparr>sort_props := \<lparr> sort_field = fld, sort_direction = nextDirection \<rparr>\<rparr>, h))"
| "handleAction P s h (onFiltered changes) =
     (s\<lparr>filters := filters s ++ changes\<rparr>, h)"
| "handleAction P s h (onPickedChunk chunkId) =
     (let (b, h1) = new_array h [];
          (e, h2) = new_Set h1 {}
      in (s\<lparr>selectedChunkId := Some (Str (String_of chunkId)),
            blacklistedModuleIds := b,
            expandMode := CollapseAll,
            expandedRecords := e,
            currentlyFocusedElementID := None\<rparr>, h2))"
| "handleAction P s h (onRemoveModule moduleID) =
     (let (b, h1) = new_array h (arrayAt h (blacklistedModuleIds s) @ [moduleID])
      in (s\<lparr>blacklistedModuleIds := b\<rparr>, h1))"
| "handleAction P s h (onIncludeModule moduleID) =
     (let (b, h1) = new_array h
            (filter (\<lambda>i. String_of i \<noteq> String_of moduleID) (arrayAt h (blacklistedModuleIds s)))
      in (s\<lparr>blacklistedModuleIds := b\<rparr>, h1))"
| "handleAction P s h (changeExpandRecordsMode mode) =
     (s\<lparr>expandMode := mode\<rparr>, h)"
| "handleAction P s h (onExpandRecords moduleID) =
     (let h1 = Set_add h (expandedRecords s) moduleID;
          (e, h2) = new_Set h1 (setAt h1 (expandedRecords s))
      in (s\<lparr>expandMode := Manual, expandedRecords := e\<rparr>, h2))"
| "handleAction P s h (onCollapseRecords moduleID) =
     (let (e, h1) = new_Set h (setAt h (expandedRecords s));
          h2 = Set_delete h1 e moduleID
      in (s\<lparr>expandMode := (if setAt h2 (expandedRecords s) = {} then CollapseAll else Manual),
            expandedRecords := e\<rparr>, h2))"
| "handleAction P s h (onFocusChanged elementID) =
     (case focusParent P s h elementID of
        Some parent \<Rightarrow>
          (let h1 = Set_add h (expandedRecords s) parent;
               (e, h2) = new_Set h1 (setAt h1 (expandedRecords s))
           in (s\<lparr>expandMode := Manual,
                 expandedRecords := e,
                 currentlyFocusedElementID := elementID\<rparr>, h2))
      | None \<Rightarrow> (s\<lparr>currentlyFocusedElementID := elementID\<rparr>, h))"
| "handleAction P s h (otherAction t) = (s, h)"

subsection \<open>calculateFullModuleData and reducer\<close>

text \<open>
  The first guard of \<open>calculateFullModuleData\<close>: \<open>None\<close> when it fires, and
  otherwise the value \<open>newState.json[newState.selectedFilename]\<close> that the
  derivation is then called on. \<open>!newState.json\<close> is never true (the field holds
  an object); \<open>!newState.selectedFilename\<close> is true for null and for the empty
  string; the lookup goes through \<open>Object.prototype\<close>, and its result is falsy
  when it is \<open>undefined\<close> or a falsy stored value.
\<close>

definition selectedDocument :: "State \<Rightarrow> ('stats, 'fmd) Heap \<Rightarrow> 'stats Value option" where
  "selectedDocument s h =
     (case selectedFilename s of
        None \<Rightarrow> None
      | Some f \<Rightarrow>
          if f = [] then None
          else (case getProperty (tableAt h (json s)) Inherited f of
                  None \<Rightarrow> None
                | Some v \<Rightarrow> if v = Falsy then None else Some v))"

text \<open>
  In a state of the program \<open>selectedChunkId\<close> is null or a string (the result
  of \<open>String\<close>), so \<open>===\<close> on it is equality.
\<close>

definition calculateFullModuleData ::
  "('stats, 'fmd) Externals \<Rightarrow> State \<Rightarrow> State \<Rightarrow> ('stats, 'fmd) Heap
     \<Rightarrow> State \<times> ('stats, 'fmd) Heap" where
  "calculateFullModuleData P oldState newState h =
     (case selectedDocument newState h of
        None \<Rightarrow> (newState\<lparr>calculatedFullModuleData := None\<rparr>, h)
      | Some doc \<Rightarrow>
          if json oldState = json newState \<and>
             selectedFilename oldState = selectedFilename newState \<and>
             selectedChunkId oldState = selectedChunkId newState \<and>
             blacklistedModuleIds oldState = blacklistedModuleIds newState
          then (newState, h)
          else
            (case fullModuleData P doc (selectedChunkId newState)
                    (arrayAt h (blacklistedModuleIds newState)) of
               None \<Rightarrow>
                 (newState\<lparr>calculatedFullModuleData := None\<rparr>,
                  h\<lparr>fmd_calls := Suc (fmd_calls h)\<rparr>)
             | Some d \<Rightarrow>
                 (let (r, h1) = new_fmd h d
                  in (newState\<lparr>calculatedFullModuleData := Some r\<rparr>,
                      h1\<lparr>fmd_calls := Suc (fmd_calls h1)\<rparr>))))"

definition reducer ::
  "('stats, 'fmd) Externals \<Rightarrow> State \<times> ('stats, 'fmd) Heap \<Rightarrow> 'stats Action
     \<Rightarrow> State \<times> ('stats, 'fmd) Heap" where
  "reducer P \<sigma> action =
     (case handleAction P (fst \<sigma>) (snd \<sigma>) action of
        (newState, h) \<Rightarrow> calculateFullModuleData P (fst \<sigma>) newState h)"

text \<open>The states of the program: \<open>INITIAL_STATE\<close> and what \<open>reducer\<close> returns
  from a state of the program.\<close>

inductive reachable ::
  "('stats, 'fmd) Externals \<Rightarrow> State \<times> ('stats, 'fmd) Heap \<Rightarrow> bool"
  for P :: "('stats, 'fmd) Externals" where
  init: "reachable P (INITIAL_STATE, INITIAL_HEAP)"
| step: "reachable P \<sigma> \<Longrightarrow> reachable P (reducer P \<sigma> action)"

subsection \<open>Invariants of the program's states\<close>

text \<open>Every reference of the state is an object that exists: its address is
  below the next one to be given out.\<close>

definition wf_state :: "State \<Rightarrow> ('stats, 'fmd) Heap \<Rightarrow> bool" where
  "wf_state s h \<longleftrightarrow>
     blacklistedModuleIds s < fresh h \<and> json s < fresh h \<and> expandedRecords s < fresh h \<and>
     (case calculatedFullModuleData s of None \<Rightarrow> True | Some r \<Rightarrow> r < fresh h)"

text \<open>The derived data is null when no document is selected.\<close>

definition null_without_document :: "State \<Rightarrow> ('stats, 'fmd) Heap \<Rightarrow> bool" where
  "null_without_document s h \<longleftrightarrow>
     (case selectedDocument s h of
        None \<Rightarrow> calculatedFullModuleData s = None
      | Some doc \<Rightarrow> True)"

text \<open>The derived data is up to date: null when no document is selected, and
  otherwise what \<open>fullModuleData\<close> returns for the selected document, the
  selected chunk and the blacklist (null, or a reference to that object).\<close>

definition derived_current ::
  "('stats, 'fmd) Externals \<Rightarrow> State \<Rightarrow> ('stats, 'fmd) Heap \<Rightarrow> bool" where
  "derived_current P s h \<longleftrightarrow>
     (case selectedDocument s h of
        None \<Rightarrow> calculatedFullModuleData s = None
      | Some doc \<Rightarrow>
          (case fullModuleData P doc (selectedChunkId s)
                  (arrayAt h (blacklistedModuleIds s)) of
             None \<Rightarrow> calculatedFullModuleData s = None
           | Some d \<Rightarrow>
               (case calculatedFullModuleData s of
                  None \<Rightarrow> False
                | Some r \<Rightarrow> fmd_objs h r = Some d)))"

text \<open>The value of \<open>calculatedFullModuleData\<close>: the object behind the reference.\<close>

definition derivedValue :: "State \<times> ('stats, 'fmd) Heap \<Rightarrow> 'fmd option" where
  "derivedValue \<sigma> =
     (case calculatedFullModuleData (fst \<sigma>) of
        None \<Rightarrow> None
      | Some r \<Rightarrow> fmd_objs (snd \<sigma>) r)"

text \<open>The contents of the Set of expanded records and of the blacklist.\<close>

definition expandedSet :: "State \<times> ('stats, 'fmd) Heap \<Rightarrow> ID set" where
  "expandedSet \<sigma> = setAt (snd \<sigma>) (expandedRecords (fst \<sigma>))"

definition blacklist :: "State \<times> ('stats, 'fmd) Heap \<Rightarrow> ID list" where
  "blacklist \<sigma> = arrayAt (snd \<sigma>) (blacklistedModuleIds (fst \<sigma>))"

subsection \<open>A small instance for concrete runs\<close>

text \<open>
  Modelled from the spec: \<open>fullModuleData\<close>, \<open>getModulesById\<close> and
  \<open>getCollapsableParentOf\<close> (../stats) are not among the sources. To run the
  reducer on concrete inputs the parameters need values; the instance below is
  what section 4.4 says of a document whose modules require nothing and which
  has no chunks. Such a document is the list of its module identifiers. With
  no chunk selected the universe is the whole document (step 1), and the
  derivation leaves, in document order, every module whose identifier is not
  in the blacklist (step 2: "Remove every module whose identifier is in
  blacklist"). A selected chunk has no members, which "yields an empty tree".
  A value that is no document has no modules ("derivation must degrade
  gracefully"); no document at all gives null. No module has a parent, so no
  element has a collapsable ancestor (section 4.2).
\<close>

definition example_externals :: "(ID list, ID list) Externals" where
  "example_externals =
     \<lparr> fullModuleData =
         (\<lambda>v chunk bl.
            case v of
              Stats modules \<Rightarrow>
                (case chunk of
                   None \<Rightarrow> Some (filter (\<lambda>m. m \<notin> set bl) modules)
                 | Some c \<Rightarrow> Some [])
            | Falsy \<Rightarrow> None
            | Inherited name \<Rightarrow> Some []),
       collapsableParentOf = (\<lambda>d e. None) \<rparr>"

definition initial :: "State \<times> (ID list, ID list) Heap" where
  "initial = (INITIAL_STATE, INITIAL_HEAP)"

text \<open>The state after picking the path \<open>stats.json\<close> and loading a document
  with the modules \<open>a\<close> and \<open>b\<close> under it.\<close>

definition loaded :: "State \<times> (ID list, ID list) Heap" where
  "loaded =
     reducer example_externals
       (reducer example_externals initial (pickDataPath ''stats.json''))
       (loadedStatsAtPath ''stats.json'' (Stats [Str ''a'', Str ''b'']))"

text \<open>The same with a document whose modules are the number 5, the string
  \<open>'5'\<close> and the numbers 7 and 9, after \<open>onRemoveModule('5')\<close>: the blacklist
  holds the string, and the derived data holds the three numbers.\<close>

definition numbered :: "State \<times> (ID list, ID list) Heap" where
  "numbered =
     reducer example_externals
       (reducer example_externals
          (reducer example_externals initial (pickDataPath ''stats.json''))
          (loadedStatsAtPath ''stats.json''
             (Stats [Num ''5'', Str ''5'', Num ''7'', Num ''9''])))
       (onRemoveModule (Str ''5''))"

text \<open>Three more runs from the initial state: the empty path picked and a
  document loaded under it; the path \<open>constructor\<close> picked and nothing loaded;
  the path \<open>stats.json\<close> picked and a falsy value loaded under it.\<close>

definition empty_path :: "State \<times> (ID list, ID list) Heap" where
  "empty_path =
     reducer example_externals
       (reducer example_externals initial (pickDataPath ''''))
       (loadedStatsAtPath '''' (Stats [Str ''a'']))"

definition constructor_path :: "State \<times> (ID list, ID list) Heap" where
  "constructor_path = reducer example_externals initial (pickDataPath ''constructor'')"

definition falsy_document :: "State \<times> (ID list, ID list) Heap" where
  "falsy_document =
     reducer example_externals
       (reducer example_externals initial (pickDataPath ''stats.json''))
       (loadedStatsAtPath ''stats.json'' Falsy)"

section \<open>Invariants\<close>

text \<open>
  What \<open>handleAction\<close> leaves alone: arrays, tables and derived objects that
  exist are never changed (only Sets are), \<open>calculatedFullModuleData\<close> is
  carried over, and \<open>fullModuleData\<close> is not called.
\<close>

lemmas heap_defs = new_array_def new_table_def new_Set_def new_fmd_def Set_add_def Set_delete_def
  arrayAt_def tableAt_def setAt_def

lemma handleAction_frame:
  assumes "handleAction P s h a = (s', h')" and "wf_state s h"
  shows "fresh h \<le> fresh h'"
    and "\<forall>x. x < fresh h \<longrightarrow> array_objs h' x = array_objs h x"
    and "\<forall>x. x < fresh h \<longrightarrow> table_objs h' x = table_objs h x"
    and "fmd_objs h' = fmd_objs h"
    and "fmd_calls h' = fmd_calls h"
    and "calculatedFullModuleData s' = calculatedFullModuleData s"
    and "wf_state s' h'"
  using assms
  by (cases a; auto simp: heap_defs wf_state_def Let_def split: prod.splits option.splits if_splits)+

text \<open>The first guard reads the selected filename and the table behind \<open>json\<close>,
  and nothing else.\<close>

lemma selectedDocument_eq:
  assumes "selectedFilename s' = selectedFilename s"
    and "tableAt h' (json s') = tableAt h (json s)"
  shows "selectedDocument s' h' = selectedDocument s h"
  unfolding selectedDocument_def assms by (rule refl)

lemma handleAction_same_document:
  assumes "handleAction P s h a = (s', h')" and "wf_state s h"
    and "json s' = json s" and "selectedFilename s' = selectedFilename s"
  shows "selectedDocument s' h' = selectedDocument s h"
proof (rule selectedDocument_eq)
  show "selectedFilename s' = selectedFilename s" by (rule assms(4))
  have "table_objs h' (json s) = table_objs h (json s)"
    using handleAction_frame(3)[OF assms(1,2)] assms(2) by (simp add: wf_state_def)
  then show "tableAt h' (json s') = tableAt h (json s)"
    by (simp add: tableAt_def assms(3))
qed

lemma handleAction_same_blacklist:
  assumes "handleAction P s h a = (s', h')" and "wf_state s h"
    and "blacklistedModuleIds s' = blacklistedModuleIds s"
  shows "arrayAt h' (blacklistedModuleIds s') = arrayAt h (blacklistedModuleIds s)"
  using handleAction_frame(2)[OF assms(1,2)] assms(2,3)
  by (simp add: arrayAt_def wf_state_def)

text \<open>\<open>calculateFullModuleData\<close> changes no field but \<open>calculatedFullModuleData\<close>,
  and no array, table or Set.\<close>

lemma calculateFullModuleData_fields [simp]:
  "dataPaths (fst (calculateFullModuleData P s s1 h1)) = dataPaths s1"
  "selectedFilename (fst (calculateFullModuleData P s s1 h1)) = selectedFilename s1"
  "selectedChunkId (fst (calculateFullModuleData P s s1 h1)) = selectedChunkId s1"
  "blacklistedModuleIds (fst (calculateFullModuleData P s s1 h1)) = blacklistedModuleIds s1"
  "json (fst (calculateFullModuleData P s s1 h1)) = json s1"
  "sort_props (fst (calculateFullModuleData P s s1 h1)) = sort_props s1"
  "filters (fst (calculateFullModuleData P s s1 h1)) = filters s1"
  "expandMode (fst (calculateFullModuleData P s s1 h1)) = expandMode s1"
  "expandedRecords (fst (calculateFullModuleData P s s1 h1)) = expandedRecords s1"
  "currentlyFocusedElementID (fst (calculateFullModuleData P s s1 h1)) = currentlyFocusedElementID s1"
  by (simp_all add: calculateFullModuleData_def new_fmd_def Let_def split: option.splits)

lemma calculateFullModuleData_store [simp]:
  "arrayAt (snd (calculateFullModuleData P s s1 h1)) a = arrayAt h1 a"
  "tableAt (snd (calculateFullModuleData P s s1 h1)) a = tableAt h1 a"
  "setAt (snd (calculateFullModuleData P s s1 h1)) a = setAt h1 a"
  by (simp_all add: calculateFullModuleData_def new_fmd_def arrayAt_def tableAt_def setAt_def
      Let_def split: option.splits)

lemma calculateFullModuleData_document [simp]:
  "selectedDocument (fst (calculateFullModuleData P s s1 h1))
     (snd (calculateFullModuleData P s s1 h1)) = selectedDocument s1 h1"
  by (rule selectedDocument_eq) simp_all

text \<open>Both invariants hold initially and are kept by every transition.\<close>

lemma calculateFullModuleData_wf:
  assumes "wf_state s1 h1" and "calculateFullModuleData P s s1 h1 = (s2, h2)"
  shows "wf_state s2 h2"
  using assms
  by (auto simp: calculateFullModuleData_def wf_state_def new_fmd_def Let_def
      split: option.splits if_splits)

lemma derived_current_cong:
  assumes "selectedDocument s' h' = selectedDocument s h"
    and "selectedChunkId s' = selectedChunkId s"
    and "arrayAt h' (blacklistedModuleIds s') = arrayAt h (blacklistedModuleIds s)"
    and "calculatedFullModuleData s' = calculatedFullModuleData s"
    and "fmd_objs h' = fmd_objs h"
  shows "derived_current P s' h' = derived_current P s h"
  unfolding derived_current_def assms by (rule refl)

lemma calculateFullModuleData_current:
  assumes c: "calculateFullModuleData P s s1 h1 = (s2, h2)"
    and m: "json s = json s1 \<Longrightarrow> selectedFilename s = selectedFilename s1 \<Longrightarrow>
         selectedChunkId s = selectedChunkId s1 \<Longrightarrow>
         blacklistedModuleIds s = blacklistedModuleIds s1 \<Longrightarrow> derived_current P s1 h1"
  shows "derived_current P s2 h2"
proof -
  have d: "selectedDocument s2 h2 = selectedDocument s1 h1"
    using calculateFullModuleData_document[of P s s1 h1] by (simp add: c)
  have k: "selectedChunkId s2 = selectedChunkId s1"
    using calculateFullModuleData_fields(3)[of P s s1 h1] by (simp add: c)
  have b: "arrayAt h2 (blacklistedModuleIds s2) = arrayAt h1 (blacklistedModuleIds s1)"
    using calculateFullModuleData_fields(4)[of P s s1 h1]
      calculateFullModuleData_store(1)[of P s s1 h1] by (simp add: c)
  show ?thesis
  proof (cases "selectedDocument s1 h1")
    case None
    then have "calculatedFullModuleData s2 = None"
      using c by (auto simp: calculateFullModuleData_def)
    then show ?thesis by (simp add: derived_current_def d None)
  next
    case (Some v)
    show ?thesis
    proof (cases "json s = json s1 \<and> selectedFilename s = selectedFilename s1 \<and>
        selectedChunkId s = selectedChunkId s1 \<and>
        blacklistedModuleIds s = blacklistedModuleIds s1")
      case True
      then have "(s2, h2) = (s1, h1)"
        using c Some by (simp add: calculateFullModuleData_def)
      then show ?thesis using m True by simp
    next
      case False
      show ?thesis
      proof (cases "fullModuleData P v (selectedChunkId s1) (arrayAt h1 (blacklistedModuleIds s1))")
        case None
        then have "calculatedFullModuleData s2 = None"
          using c Some False by (auto simp: calculateFullModuleData_def)
        then show ?thesis by (simp add: derived_current_def d k b Some None)
      next
        case (Some x)
        then have "calculatedFullModuleData s2 = Some (fresh h1) \<and> fmd_objs h2 (fresh h1) = Some x"
          using c \<open>selectedDocument s1 h1 = Some v\<close> False
          by (auto simp: calculateFullModuleData_def new_fmd_def)
        then show ?thesis
          by (simp add: derived_current_def d k b \<open>selectedDocument s1 h1 = Some v\<close> Some)
      qed
    qed
  qed
qed

lemma reducer_wf:
  assumes "wf_state (fst \<sigma>) (snd \<sigma>)"
  shows "wf_state (fst (reducer P \<sigma> a)) (snd (reducer P \<sigma> a))"
proof -
  obtain s1 h1 where 1: "handleAction P (fst \<sigma>) (snd \<sigma>) a = (s1, h1)"
    by (cases "handleAction P (fst \<sigma>) (snd \<sigma>) a")
  obtain s2 h2 where 2: "calculateFullModuleData P (fst \<sigma>) s1 h1 = (s2, h2)"
    by (cases "calculateFullModuleData P (fst \<sigma>) s1 h1")
  have "wf_state s1 h1" using handleAction_frame(7)[OF 1 assms] .
  then have "wf_state s2 h2" using 2 by (rule calculateFullModuleData_wf)
  then show ?thesis by (simp add: reducer_def 1 2)
qed

lemma handleAction_current:
  assumes 1: "handleAction P s h a = (s1, h1)" and wf: "wf_state s h"
    and cur: "derived_current P s h"
    and same: "json s = json s1" "selectedFilename s = selectedFilename s1"
      "selectedChunkId s = selectedChunkId s1" "blacklistedModuleIds s = blacklistedModuleIds s1"
  shows "derived_current P s1 h1"
proof -
  have d: "selectedDocument s1 h1 = selectedDocument s h"
    using handleAction_same_document[OF 1 wf] same by simp
  have b: "arrayAt h1 (blacklistedModuleIds s1) = arrayAt h (blacklistedModuleIds s)"
    using handleAction_same_blacklist[OF 1 wf] same by simp
  have "derived_current P s1 h1 = derived_current P s h"
    using d _ b handleAction_frame(6,4)[OF 1 wf]
    by (rule derived_current_cong) (simp add: same(3))
  then show ?thesis using cur by simp
qed

lemma reducer_current:
  assumes "wf_state (fst \<sigma>) (snd \<sigma>)" and "derived_current P (fst \<sigma>) (snd \<sigma>)"
  shows "derived_current P (fst (reducer P \<sigma> a)) (snd (reducer P \<sigma> a))"
proof -
  obtain s1 h1 where 1: "handleAction P (fst \<sigma>) (snd \<sigma>) a = (s1, h1)"
    by (cases "handleAction P (fst \<sigma>) (snd \<sigma>) a")
  obtain s2 h2 where 2: "calculateFullModuleData P (fst \<sigma>) s1 h1 = (s2, h2)"
    by (cases "calculateFullModuleData P (fst \<sigma>) s1 h1")
  have "derived_current P s2 h2"
    using 2 by (rule calculateFullModuleData_current) (rule handleAction_current[OF 1 assms])
  then show ?thesis by (simp add: reducer_def 1 2)
qed

lemma reachable_invariant:
  "reachable P \<sigma> \<Longrightarrow> wf_state (fst \<sigma>) (snd \<sigma>) \<and> derived_current P (fst \<sigma>) (snd \<sigma>)"
proof (induction rule: reachable.induct)
  case init
  show ?case
    by (simp add: wf_state_def derived_current_def INITIAL_STATE_def INITIAL_HEAP_def
        selectedDocument_def)
next
  case (step \<sigma> action)
  then show ?case by (simp add: reducer_wf reducer_current)
qed

lemma current_null: "derived_current P s h \<Longrightarrow> null_without_document s h"
  by (simp add: derived_current_def null_without_document_def split: option.splits)

text \<open>Whatever the state it starts from, \<open>reducer\<close> returns a state whose derived
  data is null when no document is selected.\<close>

lemma calculateFullModuleData_null:
  "null_without_document (fst (calculateFullModuleData P s s1 h1))
     (snd (calculateFullModuleData P s s1 h1))"
proof (cases "selectedDocument s1 h1")
  case None
  then have "calculatedFullModuleData (fst (calculateFullModuleData P s s1 h1)) = None"
    by (simp add: calculateFullModuleData_def)
  then show ?thesis by (simp add: null_without_document_def None)
next
  case (Some v)
  then show ?thesis by (simp add: null_without_document_def)
qed

lemma reducer_null_without_document:
  "null_without_document (fst (reducer P \<sigma> a)) (snd (reducer P \<sigma> a))"
  by (simp add: reducer_def calculateFullModuleData_null split: prod.splits)

text \<open>\<open>calculateFullModuleData\<close> returns its argument when the inputs of the
  derivation are the same.\<close>

lemma calculateFullModuleData_memo:
  assumes "null_without_document s h"
    and "json s1 = json s" and "selectedFilename s1 = selectedFilename s"
    and "selectedChunkId s1 = selectedChunkId s"
    and "blacklistedModuleIds s1 = blacklistedModuleIds s"
    and "calculatedFullModuleData s1 = calculatedFullModuleData s"
  shows "calculateFullModuleData P s s1 h = (s1, h)"
proof -
  have d: "selectedDocument s1 h = selectedDocument s h"
    using assms(3) by (rule selectedDocument_eq) (simp add: assms(2))
  show ?thesis
  proof (cases "selectedDocument s h")
    case None
    then have e: "calculatedFullModuleData s1 = None"
      using assms(1,6) by (simp add: null_without_document_def)
    have "s1\<lparr>calculatedFullModuleData := None\<rparr> = s1" by (subst e[symmetric]) simp
    then show ?thesis
      using None by (simp add: calculateFullModuleData_def d)
  next
    case (Some doc)
    then show ?thesis
      using assms(2-5) by (simp add: calculateFullModuleData_def d)
  qed
qed

lemma reachable_wf: "reachable P \<sigma> \<Longrightarrow> wf_state (fst \<sigma>) (snd \<sigma>)"
  by (simp add: reachable_invariant)

lemma reachable_current: "reachable P \<sigma> \<Longrightarrow> derived_current P (fst \<sigma>) (snd \<sigma>)"
  by (simp add: reachable_invariant)

lemma reachable_null: "reachable P \<sigma> \<Longrightarrow> null_without_document (fst \<sigma>) (snd \<sigma>)"
  by (rule current_null) (rule reachable_current)

section \<open>The claims\<close>

text \<open>
  C5. A path whose status is \<open>ready\<close> stays \<open>ready\<close> under
  \<open>requestedDataAtPath\<close>; in particular \<open>requestedDataAtPath(p)\<close> dispatched after
  \<open>loadedStatsAtPath(p, stats)\<close> leaves the status of \<open>p\<close> at \<open>ready\<close>, from
  any state.
\<close>

theorem requested_keeps_ready:
  "(dataPaths (fst \<sigma>) p = Some Ready \<longrightarrow>
      dataPaths (fst (reducer P \<sigma> (requestedDataAtPath p))) p = Some Ready) \<and>
   dataPaths (fst (reducer P (reducer P \<sigma> (loadedStatsAtPath p stats))
      (requestedDataAtPath p))) p = Some Ready"
  by (simp add: reducer_def new_table_def getProperty_def split: prod.splits)

text \<open>
  C7. \<open>onSorted(F)\<close> with \<open>F\<close> the current sort field keeps the field and inverts
  the direction (ascending becomes descending, descending becomes ascending);
  \<open>onSorted(G)\<close> with \<open>G\<close> another field sets the field to \<open>G\<close> and the direction
  to descending.
\<close>

theorem onSorted_toggles:
  "(F = sort_field (sort_props (fst \<sigma>)) \<longrightarrow>
      sort_field (sort_props (fst (reducer P \<sigma> (onSorted F)))) = F \<and>
      (sort_direction (sort_props (fst \<sigma>)) = ASC \<longrightarrow>
         sort_direction (sort_props (fst (reducer P \<sigma> (onSorted F)))) = DESC) \<and>
      (sort_direction (sort_props (fst \<sigma>)) = DESC \<longrightarrow>
         sort_direction (sort_props (fst (reducer P \<sigma> (onSorted F)))) = ASC)) \<and>
   (G \<noteq> sort_field (sort_props (fst \<sigma>)) \<longrightarrow>
      sort_props (fst (reducer P \<sigma> (onSorted G))) = \<lparr> sort_field = G, sort_direction = DESC \<rparr>)"
  by (simp add: reducer_def Let_def)

text \<open>
  C9. In a state of the program whose Set of expanded records is not empty,
  \<open>onCollapseRecords(M)\<close> sets the expand mode to \<open>manual\<close>, whatever the mode was
  and whether \<open>M\<close> was in the Set or not.
\<close>

theorem collapse_nonempty_manual:
  assumes "reachable P \<sigma>" and "expandedSet \<sigma> \<noteq> {}"
  shows "expandMode (fst (reducer P \<sigma> (onCollapseRecords M))) = Manual"
proof -
  have "expandedRecords (fst \<sigma>) < fresh (snd \<sigma>)"
    using reachable_wf[OF assms(1)] by (simp add: wf_state_def)
  then show ?thesis
    using assms(2)
    by (simp add: reducer_def expandedSet_def heap_defs Let_def split: prod.splits)
qed

text \<open>
  C10. \<open>erroredAtPath(p, error)\<close> sets the status of \<open>p\<close> to \<open>error\<close> and changes
  nothing else: the result is the state with \<open>dataPaths\<close> updated at \<open>p\<close>, every
  other field as it was, and the store, hence the json table and the documents
  in it, is the same.
\<close>

theorem erroredAtPath_frame:
  assumes "reachable P \<sigma>"
  shows "reducer P \<sigma> (erroredAtPath p e) =
           ((fst \<sigma>)\<lparr>dataPaths := (dataPaths (fst \<sigma>))(p \<mapsto> Error)\<rparr>, snd \<sigma>)"
proof -
  have "null_without_document (fst \<sigma>) (snd \<sigma>)"
    using assms by (rule reachable_null)
  then show ?thesis
    by (simp add: reducer_def calculateFullModuleData_memo)
qed

text \<open>
  C4. An action whose type is not in the catalog leaves a state of the program
  as it is: every field of the result and every object of the store is the
  same. (When no document is selected the source returns a copy of the state
  object with \<open>calculatedFullModuleData\<close> set to null, which it already was.)
\<close>

theorem unknown_action_unchanged:
  assumes "reachable P \<sigma>"
  shows "reducer P \<sigma> (otherAction t) = \<sigma>"
proof -
  have "null_without_document (fst \<sigma>) (snd \<sigma>)"
    using assms by (rule reachable_null)
  then show ?thesis
    by (cases \<sigma>) (simp add: reducer_def calculateFullModuleData_memo)
qed

text \<open>
  C2. If a transition from a state of the program leaves \<open>json\<close>,
  \<open>selectedFilename\<close>, \<open>selectedChunkId\<close> and \<open>blacklistedModuleIds\<close> the same
  (the same references, the same primitive values), then
  \<open>calculatedFullModuleData\<close> is the same reference as before, no derived object
  is created or changed, and \<open>fullModuleData\<close> is not called. So the derivation
  is called only on a transition that changes one of the four.
\<close>

theorem memo_same_inputs:
  assumes r: "reachable P \<sigma>"
    and same: "json (fst (reducer P \<sigma> a)) = json (fst \<sigma>)"
      "selectedFilename (fst (reducer P \<sigma> a)) = selectedFilename (fst \<sigma>)"
      "selectedChunkId (fst (reducer P \<sigma> a)) = selectedChunkId (fst \<sigma>)"
      "blacklistedModuleIds (fst (reducer P \<sigma> a)) = blacklistedModuleIds (fst \<sigma>)"
  shows "calculatedFullModuleData (fst (reducer P \<sigma> a)) = calculatedFullModuleData (fst \<sigma>) \<and>
         fmd_objs (snd (reducer P \<sigma> a)) = fmd_objs (snd \<sigma>) \<and>
         fmd_calls (snd (reducer P \<sigma> a)) = fmd_calls (snd \<sigma>)"
proof -
  obtain s1 h1 where 1: "handleAction P (fst \<sigma>) (snd \<sigma>) a = (s1, h1)"
    by (cases "handleAction P (fst \<sigma>) (snd \<sigma>) a")
  have wf: "wf_state (fst \<sigma>) (snd \<sigma>)"
    using r by (rule reachable_wf)
  have s1: "json s1 = json (fst \<sigma>)" "selectedFilename s1 = selectedFilename (fst \<sigma>)"
    "selectedChunkId s1 = selectedChunkId (fst \<sigma>)"
    "blacklistedModuleIds s1 = blacklistedModuleIds (fst \<sigma>)"
    using same by (simp_all add: reducer_def 1)
  have d: "selectedDocument s1 h1 = selectedDocument (fst \<sigma>) (snd \<sigma>)"
    using handleAction_same_document[OF 1 wf] s1 by simp
  have "null_without_document (fst \<sigma>) (snd \<sigma>)"
    using r by (rule reachable_null)
  then have n: "null_without_document s1 h1"
    using handleAction_frame(6)[OF 1 wf]
    by (auto simp: null_without_document_def d split: option.splits)
  have "calculateFullModuleData P (fst \<sigma>) s1 h1 = (s1, h1)"
  proof (cases "selectedDocument s1 h1")
    case None
    then have e: "calculatedFullModuleData s1 = None"
      using n by (simp add: null_without_document_def)
    have "s1\<lparr>calculatedFullModuleData := None\<rparr> = s1" by (subst e[symmetric]) simp
    then show ?thesis using None by (simp add: calculateFullModuleData_def)
  next
    case (Some v)
    then show ?thesis using s1 by (simp add: calculateFullModuleData_def)
  qed
  then show ?thesis
    using handleAction_frame(4,5,6)[OF 1 wf] by (simp add: reducer_def 1)
qed

text \<open>
  C8, as amended. After a transition from a state of the program,
  \<open>calculatedFullModuleData\<close> is null when \<open>selectedFilename\<close> is null or the empty
  string. For any other filename it is null when the json table holds a falsy
  value for it, and when the table has no entry for it and the filename is not
  the name of a property of \<open>Object.prototype\<close>. When the table holds a truthy
  value for the filename, \<open>calculatedFullModuleData\<close> is what \<open>fullModuleData\<close>
  returns for that value, the selected chunk and the blacklist: null exactly
  when that result is null, and otherwise a reference to it.
\<close>

theorem derived_after_transition:
  assumes "reachable P \<sigma>"
  shows "(case selectedFilename (fst (reducer P \<sigma> a)) of
            None \<Rightarrow> calculatedFullModuleData (fst (reducer P \<sigma> a)) = None
          | Some f \<Rightarrow>
              if f = [] then calculatedFullModuleData (fst (reducer P \<sigma> a)) = None
              else (case tableAt (snd (reducer P \<sigma> a)) (json (fst (reducer P \<sigma> a))) f of
                      None \<Rightarrow>
                        f \<notin> set Object_prototype_names \<longrightarrow>
                        calculatedFullModuleData (fst (reducer P \<sigma> a)) = None
                    | Some v \<Rightarrow>
                        if v = Falsy then calculatedFullModuleData (fst (reducer P \<sigma> a)) = None
                        else
                          derivedValue (reducer P \<sigma> a) =
                            fullModuleData P v (selectedChunkId (fst (reducer P \<sigma> a)))
                              (blacklist (reducer P \<sigma> a)) \<and>
                          (calculatedFullModuleData (fst (reducer P \<sigma> a)) = None) =
                            (fullModuleData P v (selectedChunkId (fst (reducer P \<sigma> a)))
                               (blacklist (reducer P \<sigma> a)) = None)))"
proof -
  have "reachable P (reducer P \<sigma> a)" using assms by (rule reachable.step)
  then have "derived_current P (fst (reducer P \<sigma> a)) (snd (reducer P \<sigma> a))"
    by (rule reachable_current)
  then show ?thesis
    by (auto simp: derived_current_def selectedDocument_def getProperty_def derivedValue_def
        blacklist_def split: option.splits if_splits)
qed

subsection \<open>The blacklist round trip\<close>








subsection \<open>Concrete runs\<close>

text \<open>The definitions to unfold when the reducer is run on a concrete input.\<close>

lemmas eval_defs = reducer_def calculateFullModuleData_def selectedDocument_def getProperty_def
  Object_prototype_names_def or_unknown_def discover_def heap_defs
  INITIAL_STATE_def INITIAL_HEAP_def initial_def loaded_def numbered_def empty_path_def
  constructor_path_def falsy_document_def example_externals_def String_of_def
  Let_def focusParent_def expandedSet_def blacklist_def derivedValue_def

lemma reachable_initial: "reachable example_externals initial"
  unfolding initial_def by (rule reachable.init)

lemma reachable_loaded: "reachable example_externals loaded"
  unfolding loaded_def by (intro reachable.step reachable_initial)


lemma loaded_fields:
  "selectedFilename (fst loaded) = Some ''stats.json''"
  "selectedChunkId (fst loaded) = None"
  "json (fst loaded) = 5"
  "blacklistedModuleIds (fst loaded) = 3"
  "expandedRecords (fst loaded) = 4"
  "calculatedFullModuleData (fst loaded) = Some 6"
  "dataPaths (fst loaded) ''stats.json'' = Some Ready"
  "fmd_objs (snd loaded) 6 = Some [Str ''a'', Str ''b'']"
  "fmd_calls (snd loaded) = 1"
  "fresh (snd loaded) = 7"
  by (simp_all add: eval_defs)


text \<open>
  C1. The source decides the mode from \<open>state.expandedRecords.size\<close>, the size of
  the Set before the removal, not from the copy the identifier was deleted from.
  From the initial state, \<open>onExpandRecords(a)\<close> gives mode \<open>manual\<close> and the Set
  \<open>{a}\<close>; \<open>onCollapseRecords(a)\<close> then leaves the Set empty and the mode \<open>manual\<close>,
  where the claim says \<open>collapse-all\<close>.
\<close>

theorem collapse_last_record_stays_manual:
  "expandMode (fst (reducer example_externals initial (onExpandRecords (Str ''a'')))) = Manual \<and>
   expandedSet (reducer example_externals initial (onExpandRecords (Str ''a''))) = {Str ''a''} \<and>
   expandedSet (reducer example_externals
      (reducer example_externals initial (onExpandRecords (Str ''a'')))
      (onCollapseRecords (Str ''a''))) = {} \<and>
   expandMode (fst (reducer example_externals
      (reducer example_externals initial (onExpandRecords (Str ''a'')))
      (onCollapseRecords (Str ''a'')))) = Manual"
  by (simp add: eval_defs)

text \<open>
  C3. \<open>new Set(state.expandedRecords.add(action.moduleID))\<close> adds to the Set of the
  input state before it copies it. The Set of \<open>INITIAL_STATE\<close> is empty before
  \<open>onExpandRecords(a)\<close> and holds \<open>a\<close> after it, so the input state is not left as
  it was. (\<open>onCollapseRecords\<close> copies first and changes the copy.)
\<close>

theorem onExpandRecords_mutates_input:
  "expandedSet initial = {} \<and>
   setAt (snd (reducer example_externals initial (onExpandRecords (Str ''a''))))
     (expandedRecords (fst initial)) = {Str ''a''}"
  by (simp add: eval_defs)

text \<open>
  C8, as stated, fails in three ways. The guard \<open>!newState.selectedFilename\<close>
  holds for the empty string: with the empty path picked and a document loaded
  under it, the filename is not null and the table has the entry, yet the
  derived data is null. A falsy value stored under the selected path is an
  entry of the table, and the derived data is null. And the lookup
  \<open>newState.json[newState.selectedFilename]\<close> goes through \<open>Object.prototype\<close>:
  with the path \<open>constructor\<close> picked the table has no entry for it, yet the
  guard does not fire and \<open>fullModuleData\<close> is called, on the inherited
  function.
\<close>

theorem derived_null_counterexample:
  "selectedFilename (fst empty_path) = Some '''' \<and>
   tableAt (snd empty_path) (json (fst empty_path)) '''' = Some (Stats [Str ''a'']) \<and>
   calculatedFullModuleData (fst empty_path) = None \<and>
   selectedFilename (fst falsy_document) = Some ''stats.json'' \<and>
   tableAt (snd falsy_document) (json (fst falsy_document)) ''stats.json'' = Some Falsy \<and>
   calculatedFullModuleData (fst falsy_document) = None \<and>
   selectedFilename (fst constructor_path) = Some ''constructor'' \<and>
   tableAt (snd constructor_path) (json (fst constructor_path)) ''constructor'' = None \<and>
   fmd_calls (snd constructor_path) = 1 \<and>
   derivedValue constructor_path =
     fullModuleData example_externals (Inherited ''constructor'') None [] \<and>
   calculatedFullModuleData (fst constructor_path) \<noteq> None"
  by (simp add: eval_defs)


theorem memo_same_inputs_witness:
  "calculatedFullModuleData (fst loaded) = Some 6 \<and>
   calculatedFullModuleData (fst (reducer example_externals loaded (onSorted ''name''))) = Some 6 \<and>
   fmd_calls (snd loaded) = 1 \<and>
   fmd_calls (snd (reducer example_externals loaded (onSorted ''name''))) = 1"
proof -
  have same:
    "json (fst (reducer example_externals loaded (onSorted ''name''))) = json (fst loaded)"
    "selectedFilename (fst (reducer example_externals loaded (onSorted ''name''))) =
       selectedFilename (fst loaded)"
    "selectedChunkId (fst (reducer example_externals loaded (onSorted ''name''))) =
       selectedChunkId (fst loaded)"
    "blacklistedModuleIds (fst (reducer example_externals loaded (onSorted ''name''))) =
       blacklistedModuleIds (fst loaded)"
    by (simp_all add: reducer_def Let_def)
  show ?thesis
    using memo_same_inputs[OF reachable_loaded same] by (simp add: loaded_fields)
qed

theorem unknown_action_unchanged_witness:
  "reducer example_externals loaded (otherAction ''@@INIT'') = loaded \<and>
   reducer example_externals initial (otherAction ''@@INIT'') = initial"
  using unknown_action_unchanged[OF reachable_loaded, of "''@@INIT''"]
    unknown_action_unchanged[OF reachable_initial, of "''@@INIT''"]
  by simp

theorem requested_keeps_ready_witness:
  "dataPaths (fst loaded) ''stats.json'' = Some Ready \<and>
   dataPaths (fst (reducer example_externals loaded (requestedDataAtPath ''stats.json'')))
     ''stats.json'' = Some Ready \<and>
   dataPaths (fst (reducer example_externals
      (reducer example_externals initial (loadedStatsAtPath ''stats.json'' (Stats [Str ''a''])))
      (requestedDataAtPath ''stats.json''))) ''stats.json'' = Some Ready"
  using requested_keeps_ready[of loaded "''stats.json''" example_externals]
    requested_keeps_ready[of initial "''stats.json''" example_externals "Stats [Str ''a'']"]
  by (simp add: loaded_fields)

theorem onSorted_toggles_witness:
  "sort_props (fst initial) = \<lparr> sort_field = ''cumulativeSize'', sort_direction = DESC \<rparr> \<and>
   sort_direction (sort_props (fst (reducer example_externals initial
      (onSorted ''cumulativeSize'')))) = ASC \<and>
   sort_direction (sort_props (fst (reducer example_externals
      (reducer example_externals initial (onSorted ''cumulativeSize''))
      (onSorted ''cumulativeSize'')))) = DESC \<and>
   sort_props (fst (reducer example_externals initial (onSorted ''name''))) =
     \<lparr> sort_field = ''name'', sort_direction = DESC \<rparr>"
proof -
  have i: "sort_props (fst initial) = \<lparr> sort_field = ''cumulativeSize'', sort_direction = DESC \<rparr>"
    by (simp add: initial_def INITIAL_STATE_def)
  have a: "sort_props (fst (reducer example_externals initial (onSorted ''cumulativeSize''))) =
      \<lparr> sort_field = ''cumulativeSize'', sort_direction = ASC \<rparr>"
    by (simp add: reducer_def initial_def INITIAL_STATE_def)
  show ?thesis
    using onSorted_toggles[of "''cumulativeSize''" initial example_externals "''name''"]
      onSorted_toggles[of "''cumulativeSize''"
        "reducer example_externals initial (onSorted ''cumulativeSize'')" example_externals "''name''"]
    by (simp add: i a)
qed

theorem collapse_nonempty_manual_witness:
  "expandMode (fst (reducer example_externals
      (reducer example_externals initial (onExpandRecords (Str ''a'')))
      (changeExpandRecordsMode ExpandAll))) = ExpandAll \<and>
   expandedSet (reducer example_externals
      (reducer example_externals initial (onExpandRecords (Str ''a'')))
      (changeExpandRecordsMode ExpandAll)) = {Str ''a''} \<and>
   expandMode (fst (reducer example_externals
      (reducer example_externals
        (reducer example_externals initial (onExpandRecords (Str ''a'')))
        (changeExpandRecordsMode ExpandAll))
      (onCollapseRecords (Str ''b'')))) = Manual"
proof -
  let ?\<sigma> = "reducer example_externals
      (reducer example_externals initial (onExpandRecords (Str ''a'')))
      (changeExpandRecordsMode ExpandAll)"
  have r: "reachable example_externals ?\<sigma>"
    by (intro reachable.step reachable_initial)
  have m: "expandMode (fst ?\<sigma>) = ExpandAll" by (simp add: eval_defs)
  have e: "expandedSet ?\<sigma> = {Str ''a''}" by (simp add: eval_defs)
  have n: "expandedSet ?\<sigma> \<noteq> {}" by (simp add: e)
  show ?thesis
    using collapse_nonempty_manual[OF r n, of "Str ''b''"] m e by simp
qed

theorem erroredAtPath_frame_witness:
  "dataPaths (fst loaded) ''stats.json'' = Some Ready \<and>
   reducer example_externals loaded (erroredAtPath ''stats.json'' ''failed'') =
     ((fst loaded)\<lparr>dataPaths := (dataPaths (fst loaded))(''stats.json'' \<mapsto> Error)\<rparr>, snd loaded)"
  using erroredAtPath_frame[OF reachable_loaded, of "''stats.json''" "''failed''"]
  by (simp add: loaded_fields)

text \<open>The amended C8 at four transitions: with no file selected; with a path
  picked and nothing loaded under it; with a falsy value loaded; and with a
  document loaded.\<close>

theorem derived_after_transition_witness:
  "calculatedFullModuleData (fst (reducer example_externals initial (onSorted ''name''))) = None \<and>
   calculatedFullModuleData (fst (reducer example_externals initial
      (pickDataPath ''stats.json''))) = None \<and>
   calculatedFullModuleData (fst (reducer example_externals
      (reducer example_externals initial (pickDataPath ''stats.json''))
      (loadedStatsAtPath ''stats.json'' Falsy))) = None \<and>
   calculatedFullModuleData (fst (reducer example_externals loaded (onSorted ''name''))) \<noteq> None \<and>
   derivedValue (reducer example_externals loaded (onSorted ''name'')) =
     Some [Str ''a'', Str ''b'']"
proof -
  let ?P = example_externals
  let ?picked = "reducer ?P initial (pickDataPath ''stats.json'')"
  have i: "selectedFilename (fst (reducer ?P initial (onSorted ''name''))) = None"
    by (simp add: reducer_def initial_def INITIAL_STATE_def Let_def)
  have p: "selectedFilename (fst ?picked) = Some ''stats.json''"
      "tableAt (snd ?picked) (json (fst ?picked)) ''stats.json'' = None"
      "''stats.json'' \<notin> set Object_prototype_names"
    by (simp_all add: eval_defs)
  have f: "selectedFilename (fst (reducer ?P ?picked (loadedStatsAtPath ''stats.json'' Falsy))) =
        Some ''stats.json''"
      "tableAt (snd (reducer ?P ?picked (loadedStatsAtPath ''stats.json'' Falsy)))
        (json (fst (reducer ?P ?picked (loadedStatsAtPath ''stats.json'' Falsy)))) ''stats.json'' =
        Some Falsy"
    by (simp_all add: eval_defs)
  have l: "selectedFilename (fst (reducer ?P loaded (onSorted ''name''))) = Some ''stats.json''"
      "tableAt (snd (reducer ?P loaded (onSorted ''name'')))
        (json (fst (reducer ?P loaded (onSorted ''name'')))) ''stats.json'' =
        Some (Stats [Str ''a'', Str ''b''])"
      "selectedChunkId (fst (reducer ?P loaded (onSorted ''name''))) = None"
      "blacklist (reducer ?P loaded (onSorted ''name'')) = []"
    by (simp_all add: eval_defs)
  have d: "fullModuleData ?P (Stats [Str ''a'', Str ''b'']) None [] = Some [Str ''a'', Str ''b'']"
    by (simp add: example_externals_def)
  have r: "reachable ?P ?picked"
    by (intro reachable.step reachable_initial)
  show ?thesis
    using derived_after_transition[OF reachable_initial, of "onSorted ''name''"]
      derived_after_transition[OF reachable_initial, of "pickDataPath ''stats.json''"]
      derived_after_transition[OF r, of "loadedStatsAtPath ''stats.json'' Falsy"]
      derived_after_transition[OF reachable_loaded, of "onSorted ''name''"]
    by (simp add: i p f l d)
qed


end
